theory Spec2Isabelle
  imports Complex_Main
begin

section \<open>Python values\<close>

text \<open>
  The bot of \<^verbatim>\<open>src/api/index.py\<close> moves untyped JSON between three collaborators
  (Twilio, Notion, OpenAI). The embedding keeps that: a value is a \<open>pyval\<close>, what
  \<^verbatim>\<open>json.loads\<close> can return. A Python \<^verbatim>\<open>str\<close> is the list of its code points, so that
  \<open>length\<close> and \<open>take\<close> count what \<^verbatim>\<open>len\<close> and slicing count. A float is the exact
  rational value of the double (or one of the three special values), so that comparisons
  are exact; the literal \<^verbatim>\<open>0.7\<close> of the source is the double next to seven tenths.
\<close>

type_synonym pystr = "nat list"

definition lit :: "string \<Rightarrow> pystr" where
  "lit s = map of_char s"

datatype pyfloat = FVal rat | FInf | FNegInf | FNaN

datatype pyval =
    PNone
  | PBool bool
  | PInt int
  | PFloat pyfloat
  | PStr pystr
  | PList "pyval list"
  | PDict "(pystr \<times> pyval) list"

datatype error =
    KeyError
  | TypeError
  | IndexError
  | AttributeError
  | ValueError
  | OverflowError
  | JSONDecodeError
  | HTTPException nat
  | APIResponseError
  | OpenAIError

text \<open>\<open>bindE\<close> sequences two steps, the first of which may raise.\<close>

definition bindE :: "error + 'a \<Rightarrow> ('a \<Rightarrow> error + 'b) \<Rightarrow> error + 'b" where
  "bindE m f = (case m of Inl e \<Rightarrow> Inl e | Inr x \<Rightarrow> f x)"

fun mapE :: "('a \<Rightarrow> error + 'b) \<Rightarrow> 'a list \<Rightarrow> error + 'b list" where
  "mapE f [] = Inr []"
| "mapE f (x # xs) =
     (case f x of
        Inl e \<Rightarrow> Inl e
      | Inr y \<Rightarrow> (case mapE f xs of Inl e \<Rightarrow> Inl e | Inr ys \<Rightarrow> Inr (y # ys)))"

text \<open>Truth value testing, as \<^verbatim>\<open>if x\<close>, \<^verbatim>\<open>not x\<close>, \<^verbatim>\<open>x or y\<close> and \<^verbatim>\<open>bool(x)\<close> do it.\<close>

fun truthy :: "pyval \<Rightarrow> bool" where
  "truthy PNone = False"
| "truthy (PBool b) = b"
| "truthy (PInt i) = (i \<noteq> 0)"
| "truthy (PFloat f) = (f \<noteq> FVal 0)"
| "truthy (PStr s) = (s \<noteq> [])"
| "truthy (PList xs) = (xs \<noteq> [])"
| "truthy (PDict kvs) = (kvs \<noteq> [])"

definition py_or :: "pyval \<Rightarrow> pyval \<Rightarrow> pyval" where
  "py_or x y = (if truthy x then x else y)"

text \<open>\<^verbatim>\<open>x["k"]\<close> with a string key, \<^verbatim>\<open>x[0]\<close>, \<^verbatim>\<open>x.get("k", d)\<close>, \<^verbatim>\<open>for r in x\<close>.\<close>

fun getitem_str :: "pyval \<Rightarrow> pystr \<Rightarrow> error + pyval" where
  "getitem_str (PDict kvs) k = (case map_of kvs k of None \<Rightarrow> Inl KeyError | Some v \<Rightarrow> Inr v)"
| "getitem_str _ k = Inl TypeError"

fun getitem0 :: "pyval \<Rightarrow> error + pyval" where
  "getitem0 (PList []) = Inl IndexError"
| "getitem0 (PList (x # xs)) = Inr x"
| "getitem0 (PStr []) = Inl IndexError"
| "getitem0 (PStr (c # cs)) = Inr (PStr [c])"
| "getitem0 (PDict kvs) = Inl KeyError"
| "getitem0 _ = Inl TypeError"

fun get_str :: "pyval \<Rightarrow> pystr \<Rightarrow> pyval \<Rightarrow> error + pyval" where
  "get_str (PDict kvs) k d = (case map_of kvs k of None \<Rightarrow> Inr d | Some v \<Rightarrow> Inr v)"
| "get_str _ k d = Inl AttributeError"

fun py_iter :: "pyval \<Rightarrow> error + pyval list" where
  "py_iter (PList xs) = Inr xs"
| "py_iter (PDict kvs) = Inr (map (\<lambda>kv. PStr (fst kv)) kvs)"
| "py_iter (PStr s) = Inr (map (\<lambda>c. PStr [c]) s)"
| "py_iter _ = Inl TypeError"

text \<open>\<^verbatim>\<open>d[k] = v\<close> and \<^verbatim>\<open>d.setdefault(k, v)\<close> on the items of a dict, in insertion order.\<close>

fun dict_set :: "(pystr \<times> pyval) list \<Rightarrow> pystr \<Rightarrow> pyval \<Rightarrow> (pystr \<times> pyval) list" where
  "dict_set [] k v = [(k, v)]"
| "dict_set (p # ps) k v = (if fst p = k then (k, v) # ps else p # dict_set ps k v)"

definition setdefault :: "(pystr \<times> pyval) list \<Rightarrow> pystr \<Rightarrow> pyval \<Rightarrow> (pystr \<times> pyval) list" where
  "setdefault kvs k v = (case map_of kvs k of None \<Rightarrow> kvs @ [(k, v)] | Some _ \<Rightarrow> kvs)"

text \<open>
  \<^verbatim>\<open>str.isspace\<close> of one code point, and \<^verbatim>\<open>str.strip()\<close>, which drops the white space at
  both ends.
\<close>

definition is_space :: "nat \<Rightarrow> bool" where
  "is_space c \<longleftrightarrow>
     (9 \<le> c \<and> c \<le> 13) \<or> (28 \<le> c \<and> c \<le> 32) \<or> c = 133 \<or> c = 160 \<or> c = 5760 \<or>
     (8192 \<le> c \<and> c \<le> 8202) \<or> c = 8232 \<or> c = 8233 \<or> c = 8239 \<or> c = 8287 \<or> c = 12288"

definition strip :: "pystr \<Rightarrow> pystr" where
  "strip s = rev (dropWhile is_space (rev (dropWhile is_space s)))"

text \<open>\<^verbatim>\<open>"".join(parts)\<close>: every part has to be a \<^verbatim>\<open>str\<close>.\<close>

fun as_str :: "pyval \<Rightarrow> error + pystr" where
  "as_str (PStr s) = Inr s"
| "as_str _ = Inl TypeError"

definition join_empty :: "pyval list \<Rightarrow> error + pystr" where
  "join_empty parts = bindE (mapE as_str parts) (\<lambda>ss. Inr (concat ss))"

section \<open>The collaborators\<close>

text \<open>
  Everything outside the source file is a field of \<open>env\<close>: the configuration read from
  the process environment, the clock, the Twilio signature validator, the Notion and
  OpenAI clients, and the parsers of the Python library that the source calls on
  untrusted text. A client call that raises answers \<open>None\<close> (\<open>False\<close> for
  \<^verbatim>\<open>pages.update\<close>, whose result the source drops). The calls made are recorded in
  order, as a list of \<open>call\<close>.
\<close>

datatype call =
    QueryTeam pyval
  | QueryTasks pyval pyval
  | ResponsesCreate pystr pyval
  | PagesRetrieve pyval
  | PagesUpdate pyval pyval

record env =
  TWILIO_AUTH_TOKEN :: pystr
  BOT_SECRET :: "pystr option"
  validate :: "pystr \<Rightarrow> (pystr \<times> pystr) list \<Rightarrow> pystr \<Rightarrow> bool"
  isocalendar_today :: "nat \<times> nat"
  utcnow_isoformat :: "nat \<Rightarrow> pystr"
  query_team :: "pyval \<Rightarrow> pyval option"
  query_tasks :: "pyval \<Rightarrow> pyval \<Rightarrow> pyval option"
  pages_retrieve :: "pyval \<Rightarrow> pyval option"
  pages_update :: "pyval \<Rightarrow> pyval \<Rightarrow> bool"
  responses_create :: "pystr \<Rightarrow> pyval \<Rightarrow> pystr option"
  json_loads :: "pystr \<Rightarrow> pyval option"
  float_of_str :: "pystr \<Rightarrow> pyfloat option"
  int_of_str :: "pystr \<Rightarrow> int option"
  format_other :: "pyval \<Rightarrow> pystr"

type_synonym 'a io = "call list \<times> (error + 'a)"

definition ret_io :: "'a \<Rightarrow> 'a io" where
  "ret_io x = ([], Inr x)"

definition raise_io :: "error \<Rightarrow> 'a io" where
  "raise_io e = ([], Inl e)"

definition bind_io :: "'a io \<Rightarrow> ('a \<Rightarrow> 'b io) \<Rightarrow> 'b io" where
  "bind_io m f =
     (case m of
        (t, Inl e) \<Rightarrow> (t, Inl e)
      | (t, Inr x) \<Rightarrow> (case f x of (t', r) \<Rightarrow> (t @ t', r)))"

definition pure_io :: "error + 'a \<Rightarrow> 'a io" where
  "pure_io r = ([], r)"

text \<open>\<^verbatim>\<open>int(x)\<close>, \<^verbatim>\<open>float(x)\<close> and the value an f-string inserts for \<^verbatim>\<open>{x}\<close>.\<close>

fun py_int :: "env \<Rightarrow> pyval \<Rightarrow> error + int" where
  "py_int E (PBool b) = Inr (if b then 1 else 0)"
| "py_int E (PInt i) = Inr i"
| "py_int E (PFloat (FVal r)) = Inr (if 0 \<le> r then \<lfloor>r\<rfloor> else \<lceil>r\<rceil>)"
| "py_int E (PFloat FNaN) = Inl ValueError"
| "py_int E (PFloat _) = Inl OverflowError"
| "py_int E (PStr s) = (case int_of_str E s of None \<Rightarrow> Inl ValueError | Some i \<Rightarrow> Inr i)"
| "py_int E _ = Inl TypeError"

text \<open>
  \<^verbatim>\<open>float(i)\<close> of an integer: exact up to 53 bits, beyond that rounded to the nearest
  number of 53 bits (a tie goes to the even one), and an \<^verbatim>\<open>OverflowError\<close> when the
  rounded number is no double.
\<close>

fun bitlen :: "nat \<Rightarrow> nat" where
  "bitlen n = (if n = 0 then 0 else Suc (bitlen (n div 2)))"

declare bitlen.simps [simp del]

definition float_of_int :: "int \<Rightarrow> error + pyfloat" where
  "float_of_int i =
     (let n = nat \<bar>i\<bar>; k = bitlen n in
      if k \<le> 53 then Inr (FVal (of_int i))
      else let e = k - 53; q = n div 2 ^ e; r = n mod 2 ^ e; h = 2 ^ (e - 1);
               m = (if h < r \<or> (r = h \<and> odd q) then q + 1 else q);
               v = m * 2 ^ e
           in if 2 ^ 1024 \<le> v then Inl OverflowError
              else Inr (FVal (if 0 \<le> i then of_nat v else - of_nat v)))"

fun py_float :: "env \<Rightarrow> pyval \<Rightarrow> error + pyfloat" where
  "py_float E (PBool b) = Inr (FVal (if b then 1 else 0))"
| "py_float E (PInt i) = float_of_int i"
| "py_float E (PFloat f) = Inr f"
| "py_float E (PStr s) = (case float_of_str E s of None \<Rightarrow> Inl ValueError | Some f \<Rightarrow> Inr f)"
| "py_float E _ = Inl TypeError"

fun py_format :: "env \<Rightarrow> pyval \<Rightarrow> pystr" where
  "py_format E (PStr s) = s"
| "py_format E v = format_other E v"

text \<open>\<^verbatim>\<open>a < b\<close> on floats: false whenever a NaN is involved.\<close>

fun float_lt :: "pyfloat \<Rightarrow> pyfloat \<Rightarrow> bool" where
  "float_lt FNaN _ = False"
| "float_lt _ FNaN = False"
| "float_lt (FVal a) (FVal b) = (a < b)"
| "float_lt (FVal a) FInf = True"
| "float_lt (FVal a) FNegInf = False"
| "float_lt FInf _ = False"
| "float_lt FNegInf FNegInf = False"
| "float_lt FNegInf _ = True"

text \<open>The literal \<^verbatim>\<open>0.7\<close>: the double \<^verbatim>\<open>0x3FE6666666666666\<close>, a little below seven tenths.\<close>

definition float_0_7 :: pyfloat where
  "float_0_7 = FVal (3152519739159347 / 4503599627370496)"

section \<open>Mutation Writer\<close>

text \<open>
  \<^verbatim>\<open>blocker[:1800]\<close>. A \<^verbatim>\<open>str\<close> and a \<^verbatim>\<open>list\<close> can be sliced; a \<^verbatim>\<open>dict\<close> looks the
  slice up as a key and finds none (before Python 3.12 it refuses the slice as a key with
  a \<^verbatim>\<open>TypeError\<close>); nothing else is subscriptable.
\<close>

fun slice_1800 :: "pyval \<Rightarrow> error + pyval" where
  "slice_1800 (PStr s) = Inr (PStr (take 1800 s))"
| "slice_1800 (PList xs) = Inr (PList (take 1800 xs))"
| "slice_1800 (PDict kvs) = Inl KeyError"
| "slice_1800 _ = Inl TypeError"

text \<open>
  The \<^verbatim>\<open>properties\<close> dict of \<^verbatim>\<open>notion_update_task\<close>, built branch by branch as the source
  builds it. \<open>now\<close> is \<^verbatim>\<open>dt.datetime.utcnow().isoformat()\<close> at the call.
\<close>

definition update_properties ::
  "env \<Rightarrow> pystr \<Rightarrow> pyval \<Rightarrow> pyval \<Rightarrow> pyval \<Rightarrow> pyval \<Rightarrow> error + (pystr \<times> pyval) list" where
  "update_properties E now status progress blocker needs_attention =
     (let p0 = [(lit ''Last Update'', PDict [(lit ''date'', PDict [(lit ''start'', PStr now)])])];
          p1 = (if truthy status
                then dict_set p0 (lit ''Status'')
                       (PDict [(lit ''select'', PDict [(lit ''name'', status)])])
                else p0)
      in bindE (if progress \<noteq> PNone
                then bindE (py_int E progress)
                       (\<lambda>n. Inr (dict_set p1 (lit ''Progress %'') (PDict [(lit ''number'', PInt n)])))
                else Inr p1)
           (\<lambda>p2. bindE (if blocker \<noteq> PNone
                         then bindE (slice_1800 blocker)
                                (\<lambda>b. Inr (dict_set p2 (lit ''Blocker'')
                                   (PDict [(lit ''rich_text'',
                                      PList [PDict [(lit ''text'', PDict [(lit ''content'', b)])]])])))
                         else Inr p2)
                   (\<lambda>p3. Inr (if needs_attention \<noteq> PNone
                               then dict_set p3 (lit ''Needs Attention'')
                                      (PDict [(lit ''checkbox'', PBool (truthy needs_attention))])
                               else p3))))"

definition notion_pages_update :: "env \<Rightarrow> pyval \<Rightarrow> pyval \<Rightarrow> unit io" where
  "notion_pages_update E page_id properties =
     ([PagesUpdate page_id properties],
      if pages_update E page_id properties then Inr () else Inl APIResponseError)"

definition notion_pages_retrieve :: "env \<Rightarrow> pyval \<Rightarrow> pyval io" where
  "notion_pages_retrieve E page_id =
     ([PagesRetrieve page_id],
      case pages_retrieve E page_id of None \<Rightarrow> Inl APIResponseError | Some page \<Rightarrow> Inr page)"

definition notion_update_task ::
  "env \<Rightarrow> nat \<Rightarrow> pyval \<Rightarrow> pyval \<Rightarrow> pyval \<Rightarrow> pyval \<Rightarrow> pyval \<Rightarrow> unit io" where
  "notion_update_task E tick task_id status progress blocker needs_attention =
     bind_io (pure_io (update_properties E (utcnow_isoformat E tick) status progress blocker needs_attention))
       (\<lambda>properties. notion_pages_update E task_id (PDict properties))"

text \<open>
  The text of the log so far, as \<^verbatim>\<open>notion_append_log\<close> reads it: the \<^verbatim>\<open>try\<close> block, and
  the empty string of its \<^verbatim>\<open>except Exception\<close>.
\<close>

definition log_plain_texts :: "pyval \<Rightarrow> error + pystr" where
  "log_plain_texts page =
     bindE (getitem_str page (lit ''properties''))
       (\<lambda>props. bindE (getitem_str props (lit ''Update Log''))
         (\<lambda>log. bindE (getitem_str log (lit ''rich_text''))
           (\<lambda>rich. bindE (py_iter rich)
             (\<lambda>rs. bindE (mapE (\<lambda>r. get_str r (lit ''plain_text'') (PStr [])) rs)
               join_empty))))"

definition current_log :: "pyval \<Rightarrow> pystr" where
  "current_log page = (case log_plain_texts page of Inl e \<Rightarrow> [] | Inr s \<Rightarrow> s)"

definition next_text :: "pystr \<Rightarrow> pystr \<Rightarrow> pystr" where
  "next_text current line = strip (current @ [10] @ line)"

definition log_properties :: "pystr \<Rightarrow> pyval" where
  "log_properties content =
     PDict [(lit ''Update Log'',
       PDict [(lit ''rich_text'', PList [PDict [(lit ''text'', PDict [(lit ''content'', PStr content)])]])])]"

definition written_log :: "pyval \<Rightarrow> pystr \<Rightarrow> pystr" where
  "written_log page line = take 1800 (next_text (current_log page) line)"

definition notion_append_log :: "env \<Rightarrow> pyval \<Rightarrow> pystr \<Rightarrow> unit io" where
  "notion_append_log E task_id line =
     bind_io (notion_pages_retrieve E task_id)
       (\<lambda>page. notion_pages_update E task_id (log_properties (written_log page line)))"

section \<open>Helpers\<close>

record request =
  headers :: "(pystr \<times> pystr) list"
  url_scheme :: pystr
  url_path :: pystr
  url_query :: pystr
  form_dict :: "(pystr \<times> pystr) list"
  json_payload :: "pyval option"

text \<open>
  \<open>headers\<close> is keyed by lower-case header names; \<open>form_dict\<close> is the dict that
  \<^verbatim>\<open>twilio_inbound\<close> builds from the form, every item turned into a \<^verbatim>\<open>str\<close>;
  \<open>json_payload\<close> is what \<^verbatim>\<open>await request.json()\<close> returns, \<open>None\<close> when it raises.
\<close>

text \<open>
  A response is the TwiML envelope around one message, or a JSON body. \<^verbatim>\<open>twiml\<close>
  serialises the message with \<^verbatim>\<open>str(r)\<close>, and the XML writer refuses a text that is not
  a \<^verbatim>\<open>str\<close> with a \<^verbatim>\<open>TypeError\<close>. The source hands it a literal, or a follow-up taken
  from the decision, which is true but need not be a \<^verbatim>\<open>str\<close>.
\<close>

datatype response = Twiml pystr | JsonBody pyval

fun twiml :: "pyval \<Rightarrow> error + response" where
  "twiml (PStr s) = Inr (Twiml s)"
| "twiml _ = Inl TypeError"

definition header_get :: "request \<Rightarrow> pystr \<Rightarrow> pystr \<Rightarrow> pystr" where
  "header_get req name dflt = (case map_of (headers req) name of None \<Rightarrow> dflt | Some v \<Rightarrow> v)"

text \<open>\<^verbatim>\<open>p.replace(old, "")\<close>: every occurrence of \<open>old\<close>, left to right, is dropped.\<close>

function replace_by_empty :: "pystr \<Rightarrow> pystr \<Rightarrow> pystr" where
  "replace_by_empty old s =
     (if old = [] \<or> s = [] then s
      else if take (length old) s = old then replace_by_empty old (drop (length old) s)
      else hd s # replace_by_empty old (tl s))"
  by pat_completeness auto
termination
  by (relation "measure (\<lambda>(old, s). length s)") auto

definition normalize_phone :: "pystr \<Rightarrow> pystr" where
  "normalize_phone p =
     strip (if take 9 p = lit ''whatsapp:'' then replace_by_empty (lit ''whatsapp:'') p else p)"

definition get_full_url :: "request \<Rightarrow> pystr" where
  "get_full_url req =
     (let proto = header_get req (lit ''x-forwarded-proto'') (url_scheme req);
          host = header_get req (lit ''x-forwarded-host'') (header_get req (lit ''host'') []);
          base = proto @ lit ''://'' @ host @ url_path req
      in base @ (if url_query req \<noteq> [] then lit ''?'' @ url_query req else []))"

definition require_twilio_signature :: "env \<Rightarrow> request \<Rightarrow> (pystr \<times> pystr) list \<Rightarrow> error + unit" where
  "require_twilio_signature E req form =
     (let sig = header_get req (lit ''x-twilio-signature'') [] in
      if \<not> (TWILIO_AUTH_TOKEN E \<noteq> [] \<and> sig \<noteq> []) then Inr ()
      else if \<not> validate E (get_full_url req) form sig then Inl (HTTPException 403)
      else Inr ())"

text \<open>Decimal digits of a number, and \<^verbatim>\<open>f"{year}-W{week:02d}"\<close>.\<close>

fun decimal :: "nat \<Rightarrow> pystr" where
  "decimal n = (if n < 10 then [48 + n] else decimal (n div 10) @ [48 + n mod 10])"

definition iso_week_key :: "env \<Rightarrow> (nat \<times> nat) option \<Rightarrow> pystr" where
  "iso_week_key E now =
     (case (case now of None \<Rightarrow> isocalendar_today E | Some d \<Rightarrow> d) of
        (year, week) \<Rightarrow>
          decimal year @ lit ''-W'' @ replicate (2 - length (decimal week)) 48 @ decimal week)"

definition safe_text :: "pyval \<Rightarrow> pyval" where
  "safe_text prop =
     (case bindE (getitem0 prop) (\<lambda>x. getitem_str x (lit ''plain_text'')) of
        Inl e \<Rightarrow> PStr []
      | Inr v \<Rightarrow> v)"

section \<open>Task Directory Client\<close>

definition notion_query_team :: "env \<Rightarrow> pyval \<Rightarrow> pyval io" where
  "notion_query_team E phone =
     ([QueryTeam phone],
      case query_team E phone of None \<Rightarrow> Inl APIResponseError | Some resp \<Rightarrow> Inr resp)"

definition notion_query_tasks :: "env \<Rightarrow> pyval \<Rightarrow> pyval \<Rightarrow> pyval io" where
  "notion_query_tasks E member_id week =
     ([QueryTasks member_id week],
      case query_tasks E member_id week of None \<Rightarrow> Inl APIResponseError | Some resp \<Rightarrow> Inr resp)"

definition member_of_response :: "pyval \<Rightarrow> error + pyval" where
  "member_of_response resp =
     bindE (get_str resp (lit ''results'') PNone)
       (\<lambda>results.
          if \<not> truthy results then Inr PNone
          else bindE (bindE (getitem_str resp (lit ''results'')) getitem0)
            (\<lambda>page. bindE (bindE (bindE (getitem_str page (lit ''properties''))
                                      (\<lambda>ps. getitem_str ps (lit ''Name'')))
                               (\<lambda>n. getitem_str n (lit ''title'')))
              (\<lambda>title. bindE (getitem_str page (lit ''id''))
                (\<lambda>page_id. Inr (PDict [(lit ''id'', page_id),
                   (lit ''name'', py_or (safe_text title) (PStr (lit ''Team member'')))])))))"

definition notion_find_member_by_phone :: "env \<Rightarrow> pyval \<Rightarrow> pyval io" where
  "notion_find_member_by_phone E phone_e164 =
     bind_io (notion_query_team E phone_e164) (\<lambda>resp. pure_io (member_of_response resp))"

definition task_of_page :: "pyval \<Rightarrow> error + pyval" where
  "task_of_page p =
     bindE (getitem_str p (lit ''properties''))
       (\<lambda>props. bindE (getitem_str p (lit ''id''))
         (\<lambda>page_id. bindE (bindE (getitem_str props (lit ''Task'')) (\<lambda>t. getitem_str t (lit ''title'')))
           (\<lambda>title. bindE (bindE (bindE (get_str props (lit ''Status'') (PDict []))
                                     (\<lambda>s. get_str s (lit ''select'') PNone))
                              (\<lambda>s. get_str (py_or s (PDict [])) (lit ''name'') PNone))
             (\<lambda>status. bindE (bindE (get_str props (lit ''Progress %'') (PDict []))
                                 (\<lambda>n. get_str n (lit ''number'') PNone))
               (\<lambda>progress. bindE (bindE (bindE (get_str props (lit ''Due Date'') (PDict []))
                                             (\<lambda>d. get_str d (lit ''date'') PNone))
                                      (\<lambda>d. get_str (py_or d (PDict [])) (lit ''start'') PNone))
                 (\<lambda>due. Inr (PDict [(lit ''id'', page_id),
                    (lit ''title'', py_or (safe_text title) (PStr (lit ''Untitled''))),
                    (lit ''status'', status),
                    (lit ''progress'', progress),
                    (lit ''due'', due)])))))))"

definition tasks_of_response :: "pyval \<Rightarrow> error + pyval list" where
  "tasks_of_response resp =
     bindE (bindE (get_str resp (lit ''results'') (PList [])) py_iter) (mapE task_of_page)"

definition notion_get_tasks_for_member_week :: "env \<Rightarrow> pyval \<Rightarrow> pyval \<Rightarrow> pyval list io" where
  "notion_get_tasks_for_member_week E member_id week =
     bind_io (notion_query_tasks E member_id week) (\<lambda>resp. pure_io (tasks_of_response resp))"

section \<open>Update Interpreter\<close>

text \<open>\<^verbatim>\<open>chr(n)\<close> raises beyond the last code point.\<close>

definition py_chr :: "nat \<Rightarrow> error + pystr" where
  "py_chr n = (if n < 1114112 then Inr [n] else Inl ValueError)"

text \<open>
  The loop \<^verbatim>\<open>for i, t in enumerate(tasks)\<close> of \<^verbatim>\<open>ai_parse_update\<close>, from index \<open>i\<close> on.
\<close>

fun task_summaries :: "nat \<Rightarrow> pyval list \<Rightarrow> error + pyval list" where
  "task_summaries i [] = Inr []"
| "task_summaries i (t # ts) =
     bindE (py_chr (65 + i))
       (\<lambda>letter. bindE (getitem_str t (lit ''id''))
         (\<lambda>task_id. bindE (getitem_str t (lit ''title''))
           (\<lambda>title. bindE (get_str t (lit ''status'') PNone)
             (\<lambda>status. bindE (get_str t (lit ''progress'') PNone)
               (\<lambda>progress. bindE (get_str t (lit ''due'') PNone)
                 (\<lambda>due. bindE (task_summaries (Suc i) ts)
                   (\<lambda>rest. Inr (PDict [(lit ''letter'', PStr letter),
                      (lit ''id'', task_id),
                      (lit ''title'', title),
                      (lit ''status'', status),
                      (lit ''progress'', progress),
                      (lit ''due'', due)] # rest))))))))"

text \<open>
  The scoring step, \<^verbatim>\<open>oai.responses.create\<close>: the prompt is fixed text around the message
  and the task list, so the call is recorded with those two.
\<close>

definition openai_responses_create :: "env \<Rightarrow> pystr \<Rightarrow> pyval \<Rightarrow> pystr io" where
  "openai_responses_create E message task_list =
     ([ResponsesCreate message task_list],
      case responses_create E message task_list of
        None \<Rightarrow> Inl OpenAIError
      | Some output_text \<Rightarrow> Inr output_text)"

definition sanity_defaults :: "pyval \<Rightarrow> error + pyval" where
  "sanity_defaults data =
     (case data of
        PDict d0 \<Rightarrow>
          (let d1 = setdefault d0 (lit ''task_id'') PNone;
               d2 = setdefault d1 (lit ''status'') PNone;
               d3 = setdefault d2 (lit ''progress'') PNone;
               d4 = setdefault d3 (lit ''blocker'') PNone;
               d5 = setdefault d4 (lit ''needs_attention'') PNone;
               d6 = setdefault d5 (lit ''confidence'') (PFloat (FVal 0));
               d7 = setdefault d6 (lit ''followup'') PNone
           in Inr (PDict d7))
      | _ \<Rightarrow> Inl AttributeError)"

definition ai_parse_update :: "env \<Rightarrow> pystr \<Rightarrow> pyval list \<Rightarrow> pyval io" where
  "ai_parse_update E message tasks =
     bind_io (pure_io (task_summaries 0 tasks))
       (\<lambda>task_list. bind_io (openai_responses_create E message (PList task_list))
         (\<lambda>output_text.
            bind_io (pure_io (case json_loads E output_text of
                                None \<Rightarrow> Inl JSONDecodeError
                              | Some data \<Rightarrow> Inr data))
              (\<lambda>data. pure_io (sanity_defaults data))))"

section \<open>Digest Formatter\<close>

fun join_newline :: "pystr list \<Rightarrow> pystr" where
  "join_newline [] = []"
| "join_newline [x] = x"
| "join_newline (x # y # zs) = x @ [10] @ join_newline (y # zs)"

text \<open>The loop of \<^verbatim>\<open>build_weekly_message\<close>, from index \<open>i\<close> on: one line per task.\<close>

fun task_lines :: "env \<Rightarrow> nat \<Rightarrow> pyval list \<Rightarrow> error + pystr list" where
  "task_lines E i [] = Inr []"
| "task_lines E i (t # ts) =
     bindE (py_chr (65 + i))
       (\<lambda>letter. bindE (get_str t (lit ''due'') PNone)
         (\<lambda>d. bindE (if truthy d
                      then bindE (getitem_str t (lit ''due''))
                             (\<lambda>v. Inr (lit '' (Due '' @ py_format E v @ lit '')''))
                      else Inr [])
           (\<lambda>due. bindE (getitem_str t (lit ''title''))
             (\<lambda>title. bindE (task_lines E (Suc i) ts)
               (\<lambda>rest. Inr ((letter @ lit '') '' @ py_format E title @ due) # rest))))))"

definition build_weekly_message :: "env \<Rightarrow> pyval \<Rightarrow> pyval list \<Rightarrow> error + pystr" where
  "build_weekly_message E week tasks =
     bindE (task_lines E 0 tasks)
       (\<lambda>ls. Inr (join_newline
          ([lit ''Your tasks for '' @ py_format E week @ lit '':''] @ ls @
           [[], lit ''Reply like:'', lit ''A done'', lit ''B 60%'', lit ''C blocked waiting on X'',
            lit ''Or just type normally, I'' @ [8217] @ lit ''ll parse it.''])))"

section \<open>Conversation Orchestrator\<close>

text \<open>
  \<open>handle_parsed\<close> is \<^verbatim>\<open>twilio_inbound\<close> from the line after the call of
  \<^verbatim>\<open>ai_parse_update\<close> to its end (lines 247 to 272): the decision between a clarifying
  reply and the two writes. Its first line, \<^verbatim>\<open>float(parsed.get("confidence") or 0.0)\<close>,
  is \<open>confidence_of\<close>. The clock is read twice there, first inside
  \<^verbatim>\<open>notion_update_task\<close> and then for the log line.
\<close>

definition confidence_of :: "env \<Rightarrow> pyval \<Rightarrow> error + pyfloat" where
  "confidence_of E parsed =
     bindE (get_str parsed (lit ''confidence'') PNone) (\<lambda>c. py_float E (py_or c (PFloat (FVal 0))))"

definition handle_parsed :: "env \<Rightarrow> pyval \<Rightarrow> pystr \<Rightarrow> pyval \<Rightarrow> response io" where
  "handle_parsed E member body parsed =
     bind_io (pure_io (confidence_of E parsed))
       (\<lambda>confidence. bind_io (pure_io (get_str parsed (lit ''followup'') PNone))
         (\<lambda>followup.
            if float_lt confidence float_0_7 \<or> truthy followup
            then pure_io (twiml (py_or followup
                   (PStr (lit ''Which task is this for? Reply with A, B, C, or paste the task name.''))))
            else bind_io (pure_io (get_str parsed (lit ''task_id'') PNone))
              (\<lambda>task_id.
                 if \<not> truthy task_id
                 then pure_io (twiml (PStr (lit ''I couldn'' @ [8217] @
                        lit ''t match that to a task. Reply with A, B, C, or paste the task name.'')))
                 else bind_io (pure_io (get_str parsed (lit ''status'') PNone))
                   (\<lambda>status. bind_io (pure_io (get_str parsed (lit ''progress'') PNone))
                     (\<lambda>progress. bind_io (pure_io (get_str parsed (lit ''blocker'') PNone))
                       (\<lambda>blocker. bind_io (pure_io (get_str parsed (lit ''needs_attention'') PNone))
                         (\<lambda>needs_attention.
                            bind_io (notion_update_task E 0 task_id status progress blocker needs_attention)
                              (\<lambda>_. bind_io (pure_io (getitem_str member (lit ''name'')))
                                (\<lambda>name.
                                   bind_io (notion_append_log E task_id
                                              (utcnow_isoformat E 1 @ lit '' | '' @ py_format E name @
                                               lit '': '' @ body))
                                     (\<lambda>_. pure_io (twiml (PStr
                                        (if status = PStr (lit ''Done'')
                                         then lit ''Nice. Marked as Done and updated Notion.''
                                         else if status = PStr (lit ''Blocked'')
                                         then lit ''Got it. Marked Blocked in Notion. What do you need to unblock?''
                                         else lit ''Got it. Updated Notion.'')))))))))))))"

definition twilio_inbound :: "env \<Rightarrow> request \<Rightarrow> response io" where
  "twilio_inbound E req =
     (let form = form_dict req in
      bind_io (pure_io (require_twilio_signature E req form))
        (\<lambda>_.
           let from_raw = (case map_of form (lit ''From'') of None \<Rightarrow> [] | Some v \<Rightarrow> v);
               body = strip (case map_of form (lit ''Body'') of None \<Rightarrow> [] | Some v \<Rightarrow> v);
               from_phone = normalize_phone from_raw
           in if body = []
              then pure_io (twiml (PStr (lit ''Send an update like: 'done', '60%', or 'blocked waiting on X'.'')))
              else bind_io (notion_find_member_by_phone E (PStr from_phone))
                (\<lambda>member.
                   if \<not> truthy member
                   then pure_io (twiml (PStr (lit ''I don'' @ [8217] @
                          lit ''t recognize this number yet. Add it to the Team database in Notion under WhatsApp.'')))
                   else let week = iso_week_key E None in
                     bind_io (pure_io (getitem_str member (lit ''id'')))
                       (\<lambda>member_id. bind_io (notion_get_tasks_for_member_week E member_id (PStr week))
                         (\<lambda>tasks.
                            if tasks = []
                            then pure_io (twiml (PStr (lit ''No tasks found for you in '' @ week @
                                   lit ''. Ask your manager to assign tasks in Notion.'')))
                            else bind_io (ai_parse_update E body tasks)
                                   (handle_parsed E member body))))))"

section \<open>Weekly trigger\<close>

definition send_weekly :: "env \<Rightarrow> request \<Rightarrow> response io" where
  "send_weekly E req =
     (let secret = header_get req (lit ''x-bot-secret'') [] in
      if secret \<noteq> (case BOT_SECRET E of None \<Rightarrow> [] | Some s \<Rightarrow> s)
      then raise_io (HTTPException 403)
      else bind_io (pure_io (case json_payload req of None \<Rightarrow> Inl JSONDecodeError | Some p \<Rightarrow> Inr p))
        (\<lambda>payload. bind_io (pure_io (get_str payload (lit ''to'') PNone))
          (\<lambda>member_phone. bind_io (pure_io (get_str payload (lit ''week'') PNone))
            (\<lambda>w. let week = py_or w (PStr (iso_week_key E None)) in
               bind_io (notion_find_member_by_phone E member_phone)
                 (\<lambda>member.
                    if \<not> truthy member
                    then ret_io (JsonBody (PDict [(lit ''ok'', PBool False),
                           (lit ''error'', PStr (lit ''Member not found in Notion Team DB''))]))
                    else bind_io (pure_io (getitem_str member (lit ''id'')))
                      (\<lambda>member_id. bind_io (notion_get_tasks_for_member_week E member_id week)
                        (\<lambda>tasks. bind_io (pure_io (build_weekly_message E week tasks))
                          (\<lambda>msg. ret_io (JsonBody (PDict [(lit ''ok'', PBool True),
                             (lit ''preview_message'', PStr msg),
                             (lit ''tasks'', PInt (int (length tasks)))]))))))))))"

section \<open>Vocabulary of the properties\<close>

text \<open>The writes among the calls of a request, in order.\<close>

fun is_write :: "call \<Rightarrow> bool" where
  "is_write (PagesUpdate page_id properties) = True"
| "is_write _ = False"

definition writes :: "call list \<Rightarrow> call list" where
  "writes t = filter is_write t"

text \<open>
  The state \<open>TASKS_LOADED\<close> of a request: the signature check passed, the body is not
  empty, the sender is the member \<open>member\<close> and \<open>tasks\<close> is their list for the week, not
  empty. From here \<^verbatim>\<open>twilio_inbound\<close> calls the interpreter.
\<close>

definition sender_phone :: "request \<Rightarrow> pystr" where
  "sender_phone req =
     normalize_phone (case map_of (form_dict req) (lit ''From'') of None \<Rightarrow> [] | Some v \<Rightarrow> v)"

definition message_body :: "request \<Rightarrow> pystr" where
  "message_body req = strip (case map_of (form_dict req) (lit ''Body'') of None \<Rightarrow> [] | Some v \<Rightarrow> v)"

definition tasks_loaded :: "env \<Rightarrow> request \<Rightarrow> pyval \<Rightarrow> pyval list \<Rightarrow> bool" where
  "tasks_loaded E req member tasks \<longleftrightarrow>
     require_twilio_signature E req (form_dict req) = Inr () \<and>
     message_body req \<noteq> [] \<and>
     snd (notion_find_member_by_phone E (PStr (sender_phone req))) = Inr member \<and>
     truthy member \<and>
     (case getitem_str member (lit ''id'') of
        Inl e \<Rightarrow> False
      | Inr member_id \<Rightarrow>
          snd (notion_get_tasks_for_member_week E member_id (PStr (iso_week_key E None))) = Inr tasks) \<and>
     tasks \<noteq> []"

text \<open>
  The arguments of \<^verbatim>\<open>notion_update_task\<close> as its signature declares them
  (\<^verbatim>\<open>Optional[str]\<close>, \<^verbatim>\<open>Optional[int]\<close>, \<^verbatim>\<open>Optional[bool]\<close>), as Python values.
\<close>

definition opt_str :: "pystr option \<Rightarrow> pyval" where
  "opt_str x = (case x of None \<Rightarrow> PNone | Some s \<Rightarrow> PStr s)"

definition opt_int :: "int option \<Rightarrow> pyval" where
  "opt_int x = (case x of None \<Rightarrow> PNone | Some i \<Rightarrow> PInt i)"

definition opt_bool :: "bool option \<Rightarrow> pyval" where
  "opt_bool x = (case x of None \<Rightarrow> PNone | Some b \<Rightarrow> PBool b)"

text \<open>
  What \<^verbatim>\<open>notion.pages.update\<close> does to the stored properties of the page, as the store's
  interface promises it (a partial update by id): the properties named in the request
  are replaced, every other one keeps its value.
\<close>

definition partial_update :: "(pystr \<rightharpoonup> pyval) \<Rightarrow> (pystr \<times> pyval) list \<Rightarrow> (pystr \<rightharpoonup> pyval)" where
  "partial_update stored properties = stored ++ map_of properties"

fun in_unit_interval :: "pyfloat \<Rightarrow> bool" where
  "in_unit_interval (FVal r) = (0 \<le> r \<and> r \<le> 1)"
| "in_unit_interval _ = False"

text \<open>\<^verbatim>\<open>parsed.get(k)\<close> on the decision, and \<^verbatim>\<open>a <= b\<close> on floats.\<close>

definition decision_field :: "pyval \<Rightarrow> pystr \<Rightarrow> pyval" where
  "decision_field parsed k = (case get_str parsed k PNone of Inl e \<Rightarrow> PNone | Inr v \<Rightarrow> v)"


section \<open>Sample inputs\<close>

text \<open>
  One team member, Ann, with one task this week, and a store that answers every call.
  \<open>sample_env output data\<close> is that world with a scoring step that returns the text
  \<open>output\<close> (none when the call fails), which \<^verbatim>\<open>json.loads\<close> reads as \<open>data\<close> (none
  when it is not JSON). No sample decision carries a number as a string, so the two
  string parsers are left trivial.
\<close>

definition sample_team_response :: pyval where
  "sample_team_response =
     PDict [(lit ''results'', PList [PDict [(lit ''id'', PStr (lit ''member-1'')),
       (lit ''properties'', PDict [(lit ''Name'',
          PDict [(lit ''title'', PList [PDict [(lit ''plain_text'', PStr (lit ''Ann''))]])])])]])]"

definition sample_task_page :: pyval where
  "sample_task_page =
     PDict [(lit ''id'', PStr (lit ''task-1'')),
       (lit ''properties'', PDict [(lit ''Task'',
          PDict [(lit ''title'', PList [PDict [(lit ''plain_text'', PStr (lit ''Write report''))]])])])]"

definition sample_log_page :: "pystr \<Rightarrow> pyval" where
  "sample_log_page text =
     PDict [(lit ''properties'', PDict [(lit ''Update Log'',
       PDict [(lit ''rich_text'', PList [PDict [(lit ''plain_text'', PStr text)]])])])]"

definition sample_env :: "pystr option \<Rightarrow> pyval option \<Rightarrow> env" where
  "sample_env output data =
     \<lparr> TWILIO_AUTH_TOKEN = [],
       BOT_SECRET = None,
       validate = (\<lambda>url form sig. False),
       isocalendar_today = (2026, 5),
       utcnow_isoformat = (\<lambda>tick. if tick = 0 then lit ''2026-01-28T10:00:00.120000''
                                   else lit ''2026-01-28T10:00:00.480000''),
       query_team = (\<lambda>phone. if phone = PStr (lit ''+14155552671'') then Some sample_team_response
                              else Some (PDict [(lit ''results'', PList [])])),
       query_tasks = (\<lambda>member_id week. Some (PDict [(lit ''results'', PList [sample_task_page])])),
       pages_retrieve = (\<lambda>page_id. Some (sample_log_page (lit ''2026-01-27T09:00:00 | Ann: 20%''))),
       pages_update = (\<lambda>page_id properties. True),
       responses_create = (\<lambda>message task_list. output),
       json_loads = (\<lambda>text. data),
       float_of_str = (\<lambda>s. None),
       int_of_str = (\<lambda>s. None),
       format_other = (\<lambda>v. lit ''?'') \<rparr>"

definition sample_request :: request where
  "sample_request =
     \<lparr> headers = [(lit ''host'', lit ''bot.example.org'')],
       url_scheme = lit ''https'',
       url_path = lit ''/api/twilio/inbound'',
       url_query = [],
       form_dict = [(lit ''From'', lit ''whatsapp:+14155552671''), (lit ''Body'', lit ''done'')],
       json_payload = None \<rparr>"

definition sample_weekly_request :: "(pystr \<times> pystr) list \<Rightarrow> request" where
  "sample_weekly_request hs =
     \<lparr> headers = hs,
       url_scheme = lit ''https'',
       url_path = lit ''/api/jobs/send_weekly'',
       url_query = [],
       form_dict = [],
       json_payload = Some (PDict [(lit ''to'', PStr (lit ''+14155552671''))]) \<rparr>"

definition sample_member :: pyval where
  "sample_member = PDict [(lit ''id'', PStr (lit ''member-1'')), (lit ''name'', PStr (lit ''Ann''))]"

definition sample_task :: pyval where
  "sample_task =
     PDict [(lit ''id'', PStr (lit ''task-1'')), (lit ''title'', PStr (lit ''Write report'')),
       (lit ''status'', PNone), (lit ''progress'', PNone), (lit ''due'', PNone)]"

text \<open>
  The labels of a candidate list: the \<^verbatim>\<open>letter\<close> entries of the summary that
  \<^verbatim>\<open>ai_parse_update\<close> builds, and the first character of each task line of the weekly
  message. A task is well formed when it is a dict with an id and a title, as
  \<^verbatim>\<open>notion_get_tasks_for_member_week\<close> builds them.
\<close>

fun well_formed_task :: "pyval \<Rightarrow> bool" where
  "well_formed_task (PDict kvs) \<longleftrightarrow>
     map_of kvs (lit ''id'') \<noteq> None \<and> map_of kvs (lit ''title'') \<noteq> None"
| "well_formed_task _ \<longleftrightarrow> False"

definition summary_labels :: "pyval list \<Rightarrow> error + pyval list" where
  "summary_labels tasks =
     bindE (task_summaries 0 tasks) (mapE (\<lambda>r. getitem_str r (lit ''letter'')))"

definition digest_labels :: "env \<Rightarrow> pyval list \<Rightarrow> error + pystr list" where
  "digest_labels E tasks = bindE (task_lines E 0 tasks) (\<lambda>ls. Inr (map (take 1) ls))"

text \<open>The sample world with a scoring step whose output is read as the record \<open>kvs\<close>.\<close>

definition scored :: "(pystr \<times> pyval) list \<Rightarrow> env" where
  "scored kvs = sample_env (Some (lit ''(model output)'')) (Some (PDict kvs))"

section \<open>Basic facts\<close>

lemma lit_eq_iff [simp]: "lit a = lit b \<longleftrightarrow> a = b"
  unfolding lit_def by (simp add: inj_map_eq_map inj_on_def)

lemma fst_bind_io:
  "fst (bind_io m f) = (case snd m of Inl e \<Rightarrow> fst m | Inr x \<Rightarrow> fst m @ fst (f x))"
  by (cases m; cases "snd m") (auto simp: bind_io_def split: prod.splits)

lemma snd_bind_io:
  "snd (bind_io m f) = (case snd m of Inl e \<Rightarrow> Inl e | Inr x \<Rightarrow> snd (f x))"
  by (cases m; cases "snd m") (auto simp: bind_io_def split: prod.splits)

section \<open>Mutation Writer: the log\<close>

lemma length_written_log: "length (written_log page line) \<le> 1800"
  by (simp add: written_log_def)

lemma writes_append_log:
  "writes (fst (notion_append_log E task_id line)) =
     (case pages_retrieve E task_id of
        None \<Rightarrow> []
      | Some page \<Rightarrow> [PagesUpdate task_id (log_properties (written_log page line))])"
  by (simp add: notion_append_log_def notion_pages_retrieve_def notion_pages_update_def
      bind_io_def writes_def split: option.split)

text \<open>
  C5. Whatever the page read back holds and whatever line is appended,
  \<^verbatim>\<open>notion_append_log\<close> writes at most once, and the text it writes to the log has at most
  1800 characters.
\<close>

theorem append_log_bounded:
  "writes (fst (notion_append_log E task_id line)) =
     (case pages_retrieve E task_id of
        None \<Rightarrow> []
      | Some page \<Rightarrow> [PagesUpdate task_id (log_properties (written_log page line))]) \<and>
   length (written_log page' line) \<le> 1800"
  by (simp only: writes_append_log length_written_log simp_thms)

lemma dropWhile_hd: "s \<noteq> [] \<Longrightarrow> \<not> P (hd s) \<Longrightarrow> dropWhile P s = s"
  by (cases s) simp_all

lemma strip_id: "s \<noteq> [] \<Longrightarrow> \<not> is_space (hd s) \<Longrightarrow> \<not> is_space (last s) \<Longrightarrow> strip s = s"
  by (simp add: strip_def dropWhile_hd hd_rev)

lemma current_log_sample: "current_log (sample_log_page text) = text"
  by (simp add: current_log_def log_plain_texts_def sample_log_page_def bindE_def join_empty_def)


lemma written_log_keeps_oldest:
  assumes "current_log page = cur" "cur \<noteq> []" "\<not> is_space (hd cur)" "1800 \<le> length cur"
    and "line \<noteq> []" "\<not> is_space (last line)"
  shows "written_log page line = take 1800 cur"
proof -
  have "strip (cur @ [10] @ line) = cur @ [10] @ line"
    using assms by (intro strip_id) simp_all
  then show ?thesis using assms by (simp add: written_log_def next_text_def)
qed

text \<open>
  C4. The specification asks that the line just appended survives the truncation. At a log
  that already holds 1800 characters (here 1800 times the letter a) the code stores the
  old 1800 characters again: the appended line, 34 characters long, is lost whole.
\<close>

theorem append_log_drops_newest:
  "notion_append_log
     (sample_env None None\<lparr>pages_retrieve := \<lambda>page_id. Some (sample_log_page (replicate 1800 97))\<rparr>)
     (PStr (lit ''task-1'')) (lit ''2026-01-28T10:00:00.480000 | Ann: done'') =
   ([PagesRetrieve (PStr (lit ''task-1'')),
     PagesUpdate (PStr (lit ''task-1'')) (log_properties (replicate 1800 97))], Inr ())"
proof -
  have "written_log (sample_log_page (replicate 1800 97)) (lit ''2026-01-28T10:00:00.480000 | Ann: done'') =
        take 1800 (replicate 1800 97)"
    by (rule written_log_keeps_oldest [OF current_log_sample]) (simp_all add: is_space_def lit_def)
  then show ?thesis
    by (simp add: notion_append_log_def notion_pages_retrieve_def notion_pages_update_def bind_io_def
        sample_env_def)
qed

section \<open>Mutation Writer: the fields\<close>

lemma update_properties_empty_status:
  "update_properties E now (PStr []) progress blocker needs_attention =
   update_properties E now PNone progress blocker needs_attention"
  by (simp add: update_properties_def)

lemma update_properties_typed:
  "update_properties E now (opt_str status) (opt_int progress) (opt_str blocker) (opt_bool na) =
   Inr ([(lit ''Last Update'', PDict [(lit ''date'', PDict [(lit ''start'', PStr now)])])] @
        (case status of None \<Rightarrow> [] | Some s \<Rightarrow>
           if s = [] then [] else [(lit ''Status'', PDict [(lit ''select'', PDict [(lit ''name'', PStr s)])])]) @
        (case progress of None \<Rightarrow> [] | Some i \<Rightarrow> [(lit ''Progress %'', PDict [(lit ''number'', PInt i)])]) @
        (case blocker of None \<Rightarrow> [] | Some b \<Rightarrow>
           [(lit ''Blocker'', PDict [(lit ''rich_text'',
               PList [PDict [(lit ''text'', PDict [(lit ''content'', PStr (take 1800 b))])]])])]) @
        (case na of None \<Rightarrow> [] | Some b \<Rightarrow> [(lit ''Needs Attention'', PDict [(lit ''checkbox'', PBool b)])]))"
  by (simp add: update_properties_def opt_str_def opt_int_def opt_bool_def bindE_def
      split: option.split)

lemma notion_update_task_typed:
  "notion_update_task E tick task_id (opt_str status) (opt_int progress) (opt_str blocker) (opt_bool na) =
   notion_pages_update E task_id (PDict
       ([(lit ''Last Update'', PDict [(lit ''date'', PDict [(lit ''start'', PStr (utcnow_isoformat E tick))])])] @
        (case status of None \<Rightarrow> [] | Some s \<Rightarrow>
           if s = [] then [] else [(lit ''Status'', PDict [(lit ''select'', PDict [(lit ''name'', PStr s)])])]) @
        (case progress of None \<Rightarrow> [] | Some i \<Rightarrow> [(lit ''Progress %'', PDict [(lit ''number'', PInt i)])]) @
        (case blocker of None \<Rightarrow> [] | Some b \<Rightarrow>
           [(lit ''Blocker'', PDict [(lit ''rich_text'',
               PList [PDict [(lit ''text'', PDict [(lit ''content'', PStr (take 1800 b))])]])])]) @
        (case na of None \<Rightarrow> [] | Some b \<Rightarrow> [(lit ''Needs Attention'', PDict [(lit ''checkbox'', PBool b)])])))"
  by (simp add: notion_update_task_def update_properties_typed bind_io_def pure_io_def
      notion_pages_update_def)

text \<open>
  C6. Called with arguments of its declared types, \<^verbatim>\<open>notion_update_task\<close> sends one
  partial update. The request always carries the Last Update stamp, read from the clock.
  A field that is absent (\<^verbatim>\<open>None\<close>) is not in the request, so the stored value of that
  property stays as it was, and no property other than the five is ever touched. A field
  that is provided is in the request and becomes the stored value: a status that is not
  empty, a progress, a needs-attention flag, and a blocker text, which is sent cut to its
  first 1800 characters.
\<close>

theorem update_task_partial:
  "\<exists>props.
     notion_update_task E tick task_id (opt_str status) (opt_int progress) (opt_str blocker) (opt_bool na) =
       notion_pages_update E task_id (PDict props) \<and>
     map_of props (lit ''Last Update'') =
       Some (PDict [(lit ''date'', PDict [(lit ''start'', PStr (utcnow_isoformat E tick))])]) \<and>
     partial_update stored props (lit ''Last Update'') =
       Some (PDict [(lit ''date'', PDict [(lit ''start'', PStr (utcnow_isoformat E tick))])]) \<and>
     (status = None \<longrightarrow> partial_update stored props (lit ''Status'') = stored (lit ''Status'')) \<and>
     (progress = None \<longrightarrow> partial_update stored props (lit ''Progress %'') = stored (lit ''Progress %'')) \<and>
     (blocker = None \<longrightarrow> partial_update stored props (lit ''Blocker'') = stored (lit ''Blocker'')) \<and>
     (na = None \<longrightarrow> partial_update stored props (lit ''Needs Attention'') = stored (lit ''Needs Attention'')) \<and>
     (\<forall>k. k \<notin> {lit ''Last Update'', lit ''Status'', lit ''Progress %'', lit ''Blocker'', lit ''Needs Attention''} \<longrightarrow>
        partial_update stored props k = stored k) \<and>
     (\<forall>s. status = Some s \<and> s \<noteq> [] \<longrightarrow>
        map_of props (lit ''Status'') = Some (PDict [(lit ''select'', PDict [(lit ''name'', PStr s)])]) \<and>
        partial_update stored props (lit ''Status'') =
          Some (PDict [(lit ''select'', PDict [(lit ''name'', PStr s)])])) \<and>
     (\<forall>i. progress = Some i \<longrightarrow>
        map_of props (lit ''Progress %'') = Some (PDict [(lit ''number'', PInt i)]) \<and>
        partial_update stored props (lit ''Progress %'') = Some (PDict [(lit ''number'', PInt i)])) \<and>
     (\<forall>b. blocker = Some b \<longrightarrow>
        map_of props (lit ''Blocker'') =
          Some (PDict [(lit ''rich_text'',
                  PList [PDict [(lit ''text'', PDict [(lit ''content'', PStr (take 1800 b))])]])]) \<and>
        partial_update stored props (lit ''Blocker'') =
          Some (PDict [(lit ''rich_text'',
                  PList [PDict [(lit ''text'', PDict [(lit ''content'', PStr (take 1800 b))])]])])) \<and>
     (\<forall>b. na = Some b \<longrightarrow>
        map_of props (lit ''Needs Attention'') = Some (PDict [(lit ''checkbox'', PBool b)]) \<and>
        partial_update stored props (lit ''Needs Attention'') = Some (PDict [(lit ''checkbox'', PBool b)]))"
  unfolding notion_update_task_typed
  by (rule exI, rule conjI, rule refl)
     (auto simp: partial_update_def map_add_def split: option.splits)

text \<open>
  The theorem at a report of the status Blocked, 60 percent, a blocker text of 2000
  characters and no needs-attention flag: status and progress are written, the blocker is
  sent as its first 1800 characters, and the stored flag is kept.
\<close>

theorem update_task_partial_witness:
  "\<exists>props.
     notion_update_task (sample_env None None) 0 (PStr (lit ''task-1''))
         (PStr (lit ''Blocked'')) (PInt 60) (PStr (replicate 2000 120)) PNone =
       notion_pages_update (sample_env None None) (PStr (lit ''task-1'')) (PDict props) \<and>
     partial_update [lit ''Needs Attention'' \<mapsto> PBool True] props (lit ''Last Update'') =
       Some (PDict [(lit ''date'', PDict [(lit ''start'', PStr (lit ''2026-01-28T10:00:00.120000''))])]) \<and>
     partial_update [lit ''Needs Attention'' \<mapsto> PBool True] props (lit ''Needs Attention'') =
       Some (PBool True) \<and>
     partial_update [lit ''Needs Attention'' \<mapsto> PBool True] props (lit ''Status'') =
       Some (PDict [(lit ''select'', PDict [(lit ''name'', PStr (lit ''Blocked''))])]) \<and>
     partial_update [lit ''Needs Attention'' \<mapsto> PBool True] props (lit ''Progress %'') =
       Some (PDict [(lit ''number'', PInt 60)]) \<and>
     partial_update [lit ''Needs Attention'' \<mapsto> PBool True] props (lit ''Blocker'') =
       Some (PDict [(lit ''rich_text'',
               PList [PDict [(lit ''text'', PDict [(lit ''content'', PStr (replicate 1800 120))])]])])"
proof -
  have clock: "utcnow_isoformat (sample_env None None) 0 = lit ''2026-01-28T10:00:00.120000''"
    by (simp add: sample_env_def)
  have ne: "lit ''Blocked'' \<noteq> []"
    by (simp add: lit_def)
  from update_task_partial [of "sample_env None None" 0 "PStr (lit ''task-1'')" "Some (lit ''Blocked'')"
      "Some 60" "Some (replicate 2000 120)" None "[lit ''Needs Attention'' \<mapsto> PBool True]"]
  obtain props where
    "notion_update_task (sample_env None None) 0 (PStr (lit ''task-1''))
         (PStr (lit ''Blocked'')) (PInt 60) (PStr (replicate 2000 120)) PNone =
       notion_pages_update (sample_env None None) (PStr (lit ''task-1'')) (PDict props)"
    "partial_update [lit ''Needs Attention'' \<mapsto> PBool True] props (lit ''Last Update'') =
       Some (PDict [(lit ''date'', PDict [(lit ''start'', PStr (lit ''2026-01-28T10:00:00.120000''))])])"
    "partial_update [lit ''Needs Attention'' \<mapsto> PBool True] props (lit ''Needs Attention'') =
       Some (PBool True)"
    "partial_update [lit ''Needs Attention'' \<mapsto> PBool True] props (lit ''Status'') =
       Some (PDict [(lit ''select'', PDict [(lit ''name'', PStr (lit ''Blocked''))])])"
    "partial_update [lit ''Needs Attention'' \<mapsto> PBool True] props (lit ''Progress %'') =
       Some (PDict [(lit ''number'', PInt 60)])"
    "partial_update [lit ''Needs Attention'' \<mapsto> PBool True] props (lit ''Blocker'') =
       Some (PDict [(lit ''rich_text'',
               PList [PDict [(lit ''text'', PDict [(lit ''content'', PStr (replicate 1800 120))])]])])"
    unfolding clock using ne by (auto simp: opt_str_def opt_int_def opt_bool_def)
  then show ?thesis by blast
qed

text \<open>
  C9. A status that is the empty string is not written: the request has no Status
  entry, exactly as with no status at all, so the stored status stays as it was, and the
  Last Update stamp is sent all the same. Progress 0 and needs-attention \<^verbatim>\<open>False\<close> are
  not \<^verbatim>\<open>None\<close>, and they are written.
\<close>

theorem update_task_empty_status:
  "\<exists>props.
     notion_update_task E tick task_id (PStr []) (PInt 0) (opt_str blocker) (PBool False) =
       notion_pages_update E task_id (PDict props) \<and>
     map_of props (lit ''Status'') = None \<and>
     partial_update stored props (lit ''Status'') = stored (lit ''Status'') \<and>
     map_of props (lit ''Last Update'') =
       Some (PDict [(lit ''date'', PDict [(lit ''start'', PStr (utcnow_isoformat E tick))])]) \<and>
     map_of props (lit ''Progress %'') = Some (PDict [(lit ''number'', PInt 0)]) \<and>
     map_of props (lit ''Needs Attention'') = Some (PDict [(lit ''checkbox'', PBool False)]) \<and>
     notion_update_task E tick task_id (PStr []) progress' blocker' na' =
       notion_update_task E tick task_id PNone progress' blocker' na'"
proof -
  have "notion_update_task E tick task_id (PStr []) (PInt 0) (opt_str blocker) (PBool False) =
        notion_update_task E tick task_id (opt_str (Some [])) (opt_int (Some 0)) (opt_str blocker)
          (opt_bool (Some False))"
    by (simp add: opt_str_def opt_int_def opt_bool_def)
  then show ?thesis
    unfolding notion_update_task_typed
    by (intro exI conjI, assumption)
       (auto simp: partial_update_def map_add_def notion_update_task_def
          update_properties_empty_status split: option.splits)
qed

section \<open>Weekly trigger: the shared secret\<close>

text \<open>
  Only the secret check raises an \<^verbatim>\<open>HTTPException\<close>: no step on values and no
  collaborator call of the model does.
\<close>

lemma bindE_http_iff:
  "bindE m f = Inl (HTTPException n) \<longleftrightarrow>
   m = Inl (HTTPException n) \<or> (\<exists>x. m = Inr x \<and> f x = Inl (HTTPException n))"
  by (cases m) (simp_all add: bindE_def)

lemma mapE_not_http:
  "(\<And>x. f x \<noteq> Inl (HTTPException n)) \<Longrightarrow> mapE f xs \<noteq> Inl (HTTPException n)"
  by (induction xs) (auto split: sum.splits)

lemma getitem_str_not_http: "getitem_str v k \<noteq> Inl (HTTPException n)"
  by (cases v) (simp_all split: option.split)

lemma get_str_not_http: "get_str v k d \<noteq> Inl (HTTPException n)"
  by (cases v) (simp_all split: option.split)

lemma getitem0_not_http: "getitem0 v \<noteq> Inl (HTTPException n)"
  by (cases v rule: getitem0.cases) simp_all

lemma py_iter_not_http: "py_iter v \<noteq> Inl (HTTPException n)"
  by (cases v) simp_all

lemma py_chr_not_http: "py_chr k \<noteq> Inl (HTTPException n)"
  by (simp add: py_chr_def)

lemmas not_http =
  bindE_http_iff getitem_str_not_http get_str_not_http getitem0_not_http
  py_iter_not_http py_chr_not_http

lemma member_of_response_not_http: "member_of_response resp \<noteq> Inl (HTTPException n)"
  by (simp add: member_of_response_def not_http)

lemma task_of_page_not_http: "task_of_page p \<noteq> Inl (HTTPException n)"
  by (simp add: task_of_page_def not_http)

lemma tasks_of_response_not_http: "tasks_of_response resp \<noteq> Inl (HTTPException n)"
  by (simp add: tasks_of_response_def not_http mapE_not_http task_of_page_not_http)

lemma task_lines_not_http: "task_lines E i ts \<noteq> Inl (HTTPException n)"
  by (induction ts arbitrary: i) (simp_all add: not_http)

lemma build_weekly_message_not_http: "build_weekly_message E week tasks \<noteq> Inl (HTTPException n)"
  by (simp add: build_weekly_message_def not_http task_lines_not_http)

lemma bind_io_http_iff:
  "snd (bind_io m f) = Inl (HTTPException n) \<longleftrightarrow>
   snd m = Inl (HTTPException n) \<or> (\<exists>x. snd m = Inr x \<and> snd (f x) = Inl (HTTPException n))"
  by (cases m; cases "snd m") (auto simp: bind_io_def split: prod.splits)

lemma find_member_not_http:
  "snd (notion_find_member_by_phone E phone) \<noteq> Inl (HTTPException n)"
  by (simp add: notion_find_member_by_phone_def bind_io_http_iff notion_query_team_def pure_io_def
      member_of_response_not_http split: option.split)

lemma get_tasks_not_http:
  "snd (notion_get_tasks_for_member_week E member_id week) \<noteq> Inl (HTTPException n)"
  by (simp add: notion_get_tasks_for_member_week_def bind_io_http_iff notion_query_tasks_def pure_io_def
      tasks_of_response_not_http split: option.split)

lemma send_weekly_accepted_not_http:
  assumes "header_get req (lit ''x-bot-secret'') [] = (case BOT_SECRET E of None \<Rightarrow> [] | Some s \<Rightarrow> s)"
  shows "snd (send_weekly E req) \<noteq> Inl (HTTPException n)"
  using assms
  by (simp add: send_weekly_def Let_def bind_io_http_iff pure_io_def ret_io_def
      get_str_not_http getitem_str_not_http find_member_not_http get_tasks_not_http
      build_weekly_message_not_http split: option.split)

lemma send_weekly_rejected:
  assumes "header_get req (lit ''x-bot-secret'') [] \<noteq> (case BOT_SECRET E of None \<Rightarrow> [] | Some s \<Rightarrow> s)"
  shows "send_weekly E req = ([], Inl (HTTPException 403))"
  using assms by (simp add: send_weekly_def raise_io_def)

text \<open>
  C10. \<^verbatim>\<open>send_weekly\<close> answers 403 exactly when the \<^verbatim>\<open>x-bot-secret\<close> header, the empty
  string when the request has none, differs from \<^verbatim>\<open>BOT_SECRET\<close>, the empty string when
  that is not configured. So with no secret configured a request with no such header, or
  with an empty one, is not rejected.
\<close>

theorem send_weekly_rejects_iff:
  "(snd (send_weekly E req) = Inl (HTTPException 403) \<longleftrightarrow>
      header_get req (lit ''x-bot-secret'') [] \<noteq> (case BOT_SECRET E of None \<Rightarrow> [] | Some s \<Rightarrow> s)) \<and>
   (BOT_SECRET E = None \<and> map_of (headers req) (lit ''x-bot-secret'') \<in> {None, Some []} \<longrightarrow>
      snd (send_weekly E req) \<noteq> Inl (HTTPException 403))"
proof -
  have rej: "snd (send_weekly E req) = Inl (HTTPException 403)"
    if "header_get req (lit ''x-bot-secret'') [] \<noteq> (case BOT_SECRET E of None \<Rightarrow> [] | Some s \<Rightarrow> s)"
    using that by (simp add: send_weekly_rejected)
  have acc: "snd (send_weekly E req) \<noteq> Inl (HTTPException 403)"
    if "header_get req (lit ''x-bot-secret'') [] = (case BOT_SECRET E of None \<Rightarrow> [] | Some s \<Rightarrow> s)"
    using that by (rule send_weekly_accepted_not_http)
  have unconf: "header_get req (lit ''x-bot-secret'') [] = (case BOT_SECRET E of None \<Rightarrow> [] | Some s \<Rightarrow> s)"
    if "BOT_SECRET E = None" "map_of (headers req) (lit ''x-bot-secret'') \<in> {None, Some []}"
    using that by (auto simp: header_get_def)
  show ?thesis using rej acc unconf by blast
qed

text \<open>
  The theorem in the sample world, where no secret is configured: a request without the
  header is not answered 403, and one with the header \<^verbatim>\<open>x-bot-secret: guess\<close> is.
\<close>

theorem send_weekly_rejects_iff_witness:
  "BOT_SECRET (sample_env None None) = None \<and>
   map_of (headers (sample_weekly_request [])) (lit ''x-bot-secret'') = None \<and>
   snd (send_weekly (sample_env None None) (sample_weekly_request [])) \<noteq> Inl (HTTPException 403) \<and>
   snd (send_weekly (sample_env None None)
          (sample_weekly_request [(lit ''x-bot-secret'', lit ''guess'')])) = Inl (HTTPException 403)"
proof -
  have a: "BOT_SECRET (sample_env None None) = None"
    by (simp add: sample_env_def)
  have b: "map_of (headers (sample_weekly_request [])) (lit ''x-bot-secret'') = None"
    by (simp add: sample_weekly_request_def)
  have c: "header_get (sample_weekly_request [(lit ''x-bot-secret'', lit ''guess'')]) (lit ''x-bot-secret'') [] \<noteq>
           (case BOT_SECRET (sample_env None None) of None \<Rightarrow> [] | Some s \<Rightarrow> s)"
    by (simp add: a header_get_def sample_weekly_request_def lit_def)
  from send_weekly_rejects_iff [of "sample_env None None" "sample_weekly_request []"] a b
  have "snd (send_weekly (sample_env None None) (sample_weekly_request [])) \<noteq> Inl (HTTPException 403)"
    by blast
  moreover from send_weekly_rejects_iff [of "sample_env None None"
      "sample_weekly_request [(lit ''x-bot-secret'', lit ''guess'')]"] c
  have "snd (send_weekly (sample_env None None)
          (sample_weekly_request [(lit ''x-bot-secret'', lit ''guess'')])) = Inl (HTTPException 403)"
    by blast
  ultimately show ?thesis using a b by blast
qed

section \<open>Update Interpreter: the confidence\<close>

lemma map_of_setdefault:
  "map_of (setdefault kvs k v) k' =
     (if k' = k \<and> map_of kvs k = None then Some v else map_of kvs k')"
  by (auto simp: setdefault_def map_add_def split: option.splits)

lemma sanity_defaults_confidence:
  "\<exists>d. sanity_defaults (PDict kvs) = Inr (PDict d) \<and>
     map_of d (lit ''confidence'') =
       (case map_of kvs (lit ''confidence'') of Some v \<Rightarrow> Some v | None \<Rightarrow> Some (PFloat (FVal 0)))"
  by (simp add: sanity_defaults_def Let_def map_of_setdefault split: option.split)

lemma bitlen_le: "n < 2 ^ k \<Longrightarrow> bitlen n \<le> k"
proof (induction k arbitrary: n)
  case 0
  then show ?case by (simp add: bitlen.simps)
next
  case (Suc k)
  show ?case
  proof (cases "n = 0")
    case True
    then show ?thesis by (simp add: bitlen.simps)
  next
    case False
    from Suc.prems have "n div 2 < 2 ^ k" by simp
    then have "bitlen (n div 2) \<le> k" by (rule Suc.IH)
    with False show ?thesis by (simp add: bitlen.simps [of n])
  qed
qed

lemma float_of_int_exact: "\<bar>i\<bar> < 2 ^ 53 \<Longrightarrow> float_of_int i = Inr (FVal (of_int i))"
proof -
  assume "\<bar>i\<bar> < 2 ^ 53"
  then have "nat \<bar>i\<bar> < 2 ^ 53" by simp
  then have "bitlen (nat \<bar>i\<bar>) \<le> 53" by (rule bitlen_le)
  then show ?thesis by (simp add: float_of_int_def Let_def)
qed

text \<open>
  C7, as the code has it. The confidence that \<^verbatim>\<open>twilio_inbound\<close> uses is
  \<^verbatim>\<open>float(parsed.get("confidence") or 0.0)\<close>: 0.0 when the record has no confidence, or
  has \<^verbatim>\<open>null\<close> or another false value there; the record's own float, unchanged, when it
  has one; and the same number when the record has an integer below 2 to the 53 (a
  greater one is rounded to a double). Nothing clamps it: it is in the interval from 0 to
  1 when the record's value is.
\<close>

theorem confidence_carried:
  "\<exists>d. sanity_defaults (PDict kvs) = Inr d \<and>
     (map_of kvs (lit ''confidence'') = None \<longrightarrow> confidence_of E d = Inr (FVal 0)) \<and>
     (\<forall>v. map_of kvs (lit ''confidence'') = Some v \<and> \<not> truthy v \<longrightarrow> confidence_of E d = Inr (FVal 0)) \<and>
     (\<forall>f. map_of kvs (lit ''confidence'') = Some (PFloat f) \<longrightarrow>
        confidence_of E d = Inr f \<and>
        (in_unit_interval f \<longrightarrow> (\<exists>c. confidence_of E d = Inr c \<and> in_unit_interval c))) \<and>
     (\<forall>i. map_of kvs (lit ''confidence'') = Some (PInt i) \<and> \<bar>i\<bar> < 2 ^ 53 \<longrightarrow>
        confidence_of E d = Inr (FVal (of_int i)))"
proof -
  obtain d where d: "sanity_defaults (PDict kvs) = Inr (PDict d)"
    and m: "map_of d (lit ''confidence'') =
        (case map_of kvs (lit ''confidence'') of Some v \<Rightarrow> Some v | None \<Rightarrow> Some (PFloat (FVal 0)))"
    using sanity_defaults_confidence [of kvs] by auto
  show ?thesis
    by (rule exI [of _ "PDict d"])
       (auto simp: d m confidence_of_def bindE_def py_or_def float_of_int_exact)
qed

text \<open>
  The theorem at a record without a confidence, which is read as 0.0, and at a record
  with the confidence 0.75, which is carried as it is.
\<close>

theorem confidence_carried_witness:
  "(\<exists>d. sanity_defaults (PDict [(lit ''task_id'', PStr (lit ''task-1''))]) = Inr d \<and>
        confidence_of (sample_env None None) d = Inr (FVal 0)) \<and>
   (\<exists>d. sanity_defaults (PDict [(lit ''confidence'', PFloat (FVal (3 / 4)))]) = Inr d \<and>
        confidence_of (sample_env None None) d = Inr (FVal (3 / 4)) \<and>
        in_unit_interval (FVal (3 / 4)))"
proof -
  from confidence_carried [of "[(lit ''task_id'', PStr (lit ''task-1''))]" "sample_env None None"]
  have a: "\<exists>d. sanity_defaults (PDict [(lit ''task_id'', PStr (lit ''task-1''))]) = Inr d \<and>
        confidence_of (sample_env None None) d = Inr (FVal 0)"
    by auto
  from confidence_carried [of "[(lit ''confidence'', PFloat (FVal (3 / 4)))]" "sample_env None None"]
  have b: "\<exists>d. sanity_defaults (PDict [(lit ''confidence'', PFloat (FVal (3 / 4)))]) = Inr d \<and>
        confidence_of (sample_env None None) d = Inr (FVal (3 / 4))"
    by auto
  from a b show ?thesis by simp
qed

text \<open>
  As the specification states C7, it fails: a record with the confidence 85 (a percentage, say) reaches
  the comparison with 0.7 as 85.0.
\<close>

lemma snd_ai_parse_update_scored:
  "snd (ai_parse_update (scored kvs) (lit ''done'') [sample_task]) = sanity_defaults (PDict kvs)"
  by (simp add: ai_parse_update_def snd_bind_io pure_io_def openai_responses_create_def
      scored_def sample_env_def sample_task_def bindE_def py_chr_def)

theorem confidence_out_of_range:
  "bindE (snd (ai_parse_update (scored [(lit ''task_id'', PStr (lit ''task-1'')), (lit ''confidence'', PInt 85)])
                 (lit ''done'') [sample_task]))
     (confidence_of (scored [(lit ''task_id'', PStr (lit ''task-1'')), (lit ''confidence'', PInt 85)])) =
     Inr (FVal 85) \<and>
   \<not> in_unit_interval (FVal 85)"
  by (simp add: snd_ai_parse_update_scored sanity_defaults_def Let_def setdefault_def bindE_def
      confidence_of_def py_or_def float_of_int_exact)

section \<open>Labels of the candidates\<close>

text \<open>
  Candidate \<open>j\<close> of a list of at most 50 well-formed tasks gets the one-character label
  \<^verbatim>\<open>chr(65 + j)\<close>, in the summary and in the weekly message alike; the labels of a list
  are distinct, and those of the first 26 candidates are the capital letters.
\<close>

lemma task_summaries_labels:
  "list_all well_formed_task ts \<Longrightarrow> i + length ts \<le> 1114047 \<Longrightarrow>
   \<exists>rs. task_summaries i ts = Inr rs \<and>
        mapE (\<lambda>r. getitem_str r (lit ''letter'')) rs = Inr (map (\<lambda>j. PStr [65 + j]) [i..<i + length ts])"
proof (induction ts arbitrary: i)
  case Nil
  show ?case by simp
next
  case (Cons t ts)
  from Cons.prems obtain kvs a b where t: "t = PDict kvs"
    and a: "map_of kvs (lit ''id'') = Some a" and b: "map_of kvs (lit ''title'') = Some b"
    by (cases t) auto
  from Cons.prems have "list_all well_formed_task ts" "Suc i + length ts \<le> 1114047"
    by simp_all
  from Cons.IH [OF this] obtain rs where rs: "task_summaries (Suc i) ts = Inr rs"
    and ls: "mapE (\<lambda>r. getitem_str r (lit ''letter'')) rs =
             Inr (map (\<lambda>j. PStr [65 + j]) [Suc i..<Suc i + length ts])"
    by blast
  have chr: "py_chr (65 + i) = Inr [65 + i]"
    using Cons.prems by (simp add: py_chr_def)
  have upt: "[i..<i + length (t # ts)] = i # [Suc i..<Suc i + length ts]"
    by (simp add: upt_rec)
  show ?case
    unfolding upt
    by (simp add: t a b chr rs ls bindE_def split: option.split)
qed

lemma summary_labels_eq:
  assumes "list_all well_formed_task ts" "length ts \<le> 50"
  shows "summary_labels ts = Inr (map (\<lambda>j. PStr [65 + j]) [0..<length ts])"
  using task_summaries_labels [of ts 0] assms
  by (auto simp: summary_labels_def bindE_def)

lemma task_lines_labels:
  "list_all well_formed_task ts \<Longrightarrow> i + length ts \<le> 1114047 \<Longrightarrow>
   \<exists>ls. task_lines E i ts = Inr ls \<and> map (take 1) ls = map (\<lambda>j. [65 + j]) [i..<i + length ts]"
proof (induction ts arbitrary: i)
  case Nil
  show ?case by simp
next
  case (Cons t ts)
  from Cons.prems obtain kvs b where t: "t = PDict kvs"
    and b: "map_of kvs (lit ''title'') = Some b"
    by (cases t) auto
  from Cons.prems have "list_all well_formed_task ts" "Suc i + length ts \<le> 1114047"
    by simp_all
  from Cons.IH [OF this] obtain ls where ls: "task_lines E (Suc i) ts = Inr ls"
    and eq: "map (take 1) ls = map (\<lambda>j. [65 + j]) [Suc i..<Suc i + length ts]"
    by blast
  have chr: "py_chr (65 + i) = Inr [65 + i]"
    using Cons.prems by (simp add: py_chr_def)
  have upt: "[i..<i + length (t # ts)] = i # [Suc i..<Suc i + length ts]"
    by (simp add: upt_rec)
  show ?case
    unfolding upt using eq
    by (simp add: t b chr ls bindE_def split: option.split)
qed

lemma digest_labels_eq:
  assumes "list_all well_formed_task ts" "length ts \<le> 50"
  shows "digest_labels E ts = Inr (map (\<lambda>j. [65 + j]) [0..<length ts])"
  using task_lines_labels [of ts 0 E] assms
  by (auto simp: digest_labels_def bindE_def)

lemma labels_distinct: "distinct (map (\<lambda>j. PStr [65 + j]) [0..<n])"
  by (simp add: distinct_map inj_on_def)

lemma labels_upper_case:
  "n \<le> 26 \<Longrightarrow> j < n \<Longrightarrow> map (\<lambda>j. [65 + j]) [0..<n] ! j = [65 + j] \<and> 65 \<le> 65 + j \<and> 65 + j \<le> 90"
  by simp

text \<open>
  C8. From the 27th candidate on the label is no letter of the sequence A, B, C: for a
  list of 27 tasks both the summary and the weekly message label the first 26 with the
  code points 65 to 90, A to Z, and the last one with an opening square bracket,
  \<^verbatim>\<open>chr(91)\<close>.
\<close>

theorem label_after_Z:
  "summary_labels (replicate 27 sample_task) =
     Inr (map (\<lambda>c. PStr [c]) [65..<91] @ [PStr (lit ''['')]) \<and>
   digest_labels (sample_env None None) (replicate 27 sample_task) =
     Inr (map (\<lambda>c. [c]) [65..<91] @ [lit ''['']) \<and>
   [65, 90] = lit ''AZ''"
proof -
  have wf: "list_all well_formed_task (replicate 27 sample_task)"
    by (simp add: list_all_iff sample_task_def)
  have len: "length (replicate 27 sample_task) \<le> 50"
    by simp
  have shift: "map (\<lambda>j. f (65 + j)) [0..<27] = map f [65..<91] @ [f 91]" for f :: "nat \<Rightarrow> 'a"
    by (simp add: upt_rec)
  show ?thesis
    unfolding summary_labels_eq [OF wf len] digest_labels_eq [OF wf len]
    using shift [of "\<lambda>c. PStr [c]"] shift [of "\<lambda>c. [c]"]
    by (simp add: lit_def)
qed

section \<open>Conversation Orchestrator: up to the interpreter\<close>

lemma writes_append: "writes (a @ b) = writes a @ writes b"
  by (simp add: writes_def)

lemma fst_find_member: "fst (notion_find_member_by_phone E phone) = [QueryTeam phone]"
  by (simp add: notion_find_member_by_phone_def fst_bind_io notion_query_team_def pure_io_def
      split: sum.split option.split)

lemma fst_get_tasks: "fst (notion_get_tasks_for_member_week E member_id week) = [QueryTasks member_id week]"
  by (simp add: notion_get_tasks_for_member_week_def fst_bind_io notion_query_tasks_def pure_io_def
      split: sum.split option.split)

lemma writes_ai_parse_update: "writes (fst (ai_parse_update E message tasks)) = []"
  by (simp add: ai_parse_update_def fst_bind_io snd_bind_io pure_io_def openai_responses_create_def
      writes_def split: sum.split option.split)

lemma sanity_defaults_is_dict: "sanity_defaults data = Inr parsed \<Longrightarrow> \<exists>d. parsed = PDict d"
  by (cases data) (auto simp: sanity_defaults_def Let_def)

lemma ai_parse_update_is_dict:
  "snd (ai_parse_update E message tasks) = Inr parsed \<Longrightarrow> \<exists>d. parsed = PDict d"
  by (auto simp: ai_parse_update_def snd_bind_io pure_io_def
      split: sum.splits option.splits dest: sanity_defaults_is_dict)

lemma get_str_decision_field: "get_str (PDict d) k PNone = Inr (decision_field (PDict d) k)"
  by (simp add: decision_field_def split: option.split)

lemma twilio_inbound_loaded:
  assumes "tasks_loaded E req member tasks"
  shows "snd (twilio_inbound E req) =
           snd (bind_io (ai_parse_update E (message_body req) tasks)
                  (handle_parsed E member (message_body req)))"
    and "writes (fst (twilio_inbound E req)) =
           writes (fst (bind_io (ai_parse_update E (message_body req) tasks)
                          (handle_parsed E member (message_body req))))"
  using assms
  by (auto simp: tasks_loaded_def twilio_inbound_def Let_def message_body_def sender_phone_def
      fst_bind_io snd_bind_io pure_io_def ret_io_def fst_find_member fst_get_tasks writes_append
      writes_def split: sum.splits)

text \<open>The sample request reaches the interpreter, whatever the scoring step answers.\<close>

lemma message_body_sample: "message_body sample_request = lit ''done''"
  by (simp add: message_body_def sample_request_def strip_def is_space_def lit_def)

lemma sender_phone_sample: "sender_phone sample_request = lit ''+14155552671''"
  by (simp add: sender_phone_def sample_request_def normalize_phone_def strip_def is_space_def lit_def)

lemma sample_loaded: "tasks_loaded (sample_env out data) sample_request sample_member [sample_task]"
  unfolding tasks_loaded_def message_body_sample sender_phone_sample
  by (simp add: require_twilio_signature_def sample_env_def sample_request_def header_get_def
      notion_find_member_by_phone_def notion_query_team_def snd_bind_io pure_io_def
      member_of_response_def sample_team_response_def bindE_def safe_text_def py_or_def
      sample_member_def notion_get_tasks_for_member_week_def notion_query_tasks_def
      tasks_of_response_def task_of_page_def sample_task_page_def sample_task_def)
     (simp add: lit_def)

lemma task_summaries_sample:
  "task_summaries 0 [sample_task] =
     Inr [PDict [(lit ''letter'', PStr (lit ''A'')), (lit ''id'', PStr (lit ''task-1'')),
                 (lit ''title'', PStr (lit ''Write report'')), (lit ''status'', PNone),
                 (lit ''progress'', PNone), (lit ''due'', PNone)]]"
  by (simp add: sample_task_def bindE_def py_chr_def lit_def)

section \<open>Conversation Orchestrator: the decision\<close>



lemma handle_parsed_clarify:
  assumes "confidence_of E (PDict d) = Inr c"
    and "float_lt c float_0_7 \<or> truthy (decision_field (PDict d) (lit ''followup''))"
  shows "handle_parsed E member body (PDict d) =
     ([], twiml (py_or (decision_field (PDict d) (lit ''followup''))
        (PStr (lit ''Which task is this for? Reply with A, B, C, or paste the task name.''))))"
  using assms
  by (auto simp: handle_parsed_def bind_io_def pure_io_def get_str_decision_field
      simp del: get_str.simps)



lemma handle_parsed_confidence_error:
  "confidence_of E parsed = Inl e \<Longrightarrow> handle_parsed E member body parsed = ([], Inl e)"
  by (simp add: handle_parsed_def bind_io_def pure_io_def)




text \<open>
  C2, as the code has it. Take a message that reached the interpreter, whose decision
  has a confidence that \<^verbatim>\<open>float\<close> accepts. If that confidence is below 0.7, or the
  follow-up is true (neither \<^verbatim>\<open>null\<close> nor empty), nothing is written. The reply is the
  fixed question when the follow-up is not true, and the follow-up when it is a
  \<^verbatim>\<open>str\<close> that is not empty. A follow-up that is true and no \<^verbatim>\<open>str\<close> cannot be
  serialised: the request ends with a \<^verbatim>\<open>TypeError\<close>, without a reply.
\<close>

theorem clarify_no_write:
  assumes "tasks_loaded E req member tasks"
    and "snd (ai_parse_update E (message_body req) tasks) = Inr parsed"
    and "confidence_of E parsed = Inr c"
    and "followup = decision_field parsed (lit ''followup'')"
    and "float_lt c float_0_7 \<or> truthy followup"
  shows "writes (fst (twilio_inbound E req)) = [] \<and>
         (\<not> truthy followup \<longrightarrow>
            snd (twilio_inbound E req) =
              Inr (Twiml (lit ''Which task is this for? Reply with A, B, C, or paste the task name.''))) \<and>
         (\<forall>s. followup = PStr s \<and> s \<noteq> [] \<longrightarrow> snd (twilio_inbound E req) = Inr (Twiml s)) \<and>
         (truthy followup \<and> (\<forall>s. followup \<noteq> PStr s) \<longrightarrow> snd (twilio_inbound E req) = Inl TypeError)"
proof -
  obtain d where d: "parsed = PDict d"
    using ai_parse_update_is_dict assms(2) by blast
  have hp: "handle_parsed E member (message_body req) parsed =
     ([], twiml (py_or followup
        (PStr (lit ''Which task is this for? Reply with A, B, C, or paste the task name.''))))"
    using handle_parsed_clarify [of E d c member "message_body req"] assms
    unfolding d by simp
  have w: "writes (fst (twilio_inbound E req)) = []"
    unfolding twilio_inbound_loaded [OF assms(1)]
    by (simp add: fst_bind_io assms(2) hp writes_append writes_ai_parse_update)
  have r: "snd (twilio_inbound E req) =
      twiml (py_or followup
        (PStr (lit ''Which task is this for? Reply with A, B, C, or paste the task name.'')))"
    unfolding twilio_inbound_loaded [OF assms(1)]
    by (simp add: snd_bind_io assms(2) hp)
  have other: "twiml v = Inl TypeError" if "\<forall>s. v \<noteq> PStr s" for v
    using that by (cases v) simp_all
  show ?thesis
    unfolding r using w other [of followup]
    by (auto simp: py_or_def)
qed

text \<open>
  The theorem at the sample request: with the confidence 0.5 and no follow-up, with the
  confidence 0.75 and a follow-up, and with the confidence 0.75 and the number 5 as
  follow-up.
\<close>

theorem clarify_no_write_witness:
  "writes (fst (twilio_inbound
      (scored [(lit ''task_id'', PStr (lit ''task-1'')), (lit ''confidence'', PFloat (FVal (1 / 2)))])
      sample_request)) = [] \<and>
   snd (twilio_inbound
      (scored [(lit ''task_id'', PStr (lit ''task-1'')), (lit ''confidence'', PFloat (FVal (1 / 2)))])
      sample_request) =
     Inr (Twiml (lit ''Which task is this for? Reply with A, B, C, or paste the task name.'')) \<and>
   writes (fst (twilio_inbound
      (scored [(lit ''confidence'', PFloat (FVal (3 / 4))),
               (lit ''followup'', PStr (lit ''Do you mean task A?''))])
      sample_request)) = [] \<and>
   snd (twilio_inbound
      (scored [(lit ''confidence'', PFloat (FVal (3 / 4))),
               (lit ''followup'', PStr (lit ''Do you mean task A?''))])
      sample_request) =
     Inr (Twiml (lit ''Do you mean task A?'')) \<and>
   writes (fst (twilio_inbound
      (scored [(lit ''confidence'', PFloat (FVal (3 / 4))), (lit ''followup'', PInt 5)])
      sample_request)) = [] \<and>
   snd (twilio_inbound
      (scored [(lit ''confidence'', PFloat (FVal (3 / 4))), (lit ''followup'', PInt 5)])
      sample_request) = Inl TypeError"
proof -
  define ka where "ka = [(lit ''task_id'', PStr (lit ''task-1'')), (lit ''confidence'', PFloat (FVal (1 / 2)))]"
  define pa where "pa = PDict (ka @ [(lit ''status'', PNone), (lit ''progress'', PNone),
      (lit ''blocker'', PNone), (lit ''needs_attention'', PNone), (lit ''followup'', PNone)])"
  define kb where "kb = [(lit ''confidence'', PFloat (FVal (3 / 4))),
               (lit ''followup'', PStr (lit ''Do you mean task A?''))]"
  define pb where "pb = PDict (kb @ [(lit ''task_id'', PNone), (lit ''status'', PNone),
      (lit ''progress'', PNone), (lit ''blocker'', PNone), (lit ''needs_attention'', PNone)])"
  define kc where "kc = [(lit ''confidence'', PFloat (FVal (3 / 4))), (lit ''followup'', PInt 5)]"
  define pc where "pc = PDict (kc @ [(lit ''task_id'', PNone), (lit ''status'', PNone),
      (lit ''progress'', PNone), (lit ''blocker'', PNone), (lit ''needs_attention'', PNone)])"
  have a1: "tasks_loaded (scored ka) sample_request sample_member [sample_task]"
    unfolding scored_def by (rule sample_loaded)
  have a2: "snd (ai_parse_update (scored ka) (message_body sample_request) [sample_task]) = Inr pa"
    unfolding message_body_sample snd_ai_parse_update_scored
    by (simp add: sanity_defaults_def Let_def setdefault_def ka_def pa_def)
  have a3: "confidence_of (scored ka) pa = Inr (FVal (1 / 2))"
    by (simp add: confidence_of_def pa_def ka_def bindE_def py_or_def)
  have a4: "PNone = decision_field pa (lit ''followup'')"
    by (simp add: decision_field_def pa_def ka_def)
  have a5: "float_lt (FVal (1 / 2)) float_0_7 \<or> truthy PNone"
    by (simp add: float_0_7_def)
  have b1: "tasks_loaded (scored kb) sample_request sample_member [sample_task]"
    unfolding scored_def by (rule sample_loaded)
  have b2: "snd (ai_parse_update (scored kb) (message_body sample_request) [sample_task]) = Inr pb"
    unfolding message_body_sample snd_ai_parse_update_scored
    by (simp add: sanity_defaults_def Let_def setdefault_def kb_def pb_def)
  have b3: "confidence_of (scored kb) pb = Inr (FVal (3 / 4))"
    by (simp add: confidence_of_def pb_def kb_def bindE_def py_or_def)
  have b4: "PStr (lit ''Do you mean task A?'') = decision_field pb (lit ''followup'')"
    by (simp add: decision_field_def pb_def kb_def)
  have t: "lit ''Do you mean task A?'' \<noteq> []"
    by (simp add: lit_def)
  then have b5: "float_lt (FVal (3 / 4)) float_0_7 \<or> truthy (PStr (lit ''Do you mean task A?''))"
    by simp
  have c1: "tasks_loaded (scored kc) sample_request sample_member [sample_task]"
    unfolding scored_def by (rule sample_loaded)
  have c2: "snd (ai_parse_update (scored kc) (message_body sample_request) [sample_task]) = Inr pc"
    unfolding message_body_sample snd_ai_parse_update_scored
    by (simp add: sanity_defaults_def Let_def setdefault_def kc_def pc_def)
  have c3: "confidence_of (scored kc) pc = Inr (FVal (3 / 4))"
    by (simp add: confidence_of_def pc_def kc_def bindE_def py_or_def)
  have c4: "PInt 5 = decision_field pc (lit ''followup'')"
    by (simp add: decision_field_def pc_def kc_def)
  have c5: "float_lt (FVal (3 / 4)) float_0_7 \<or> truthy (PInt 5)"
    by simp
  from clarify_no_write [OF a1 a2 a3 a4 a5] clarify_no_write [OF b1 b2 b3 b4 b5]
    clarify_no_write [OF c1 c2 c3 c4 c5] t
  show ?thesis
    unfolding ka_def [symmetric] kb_def [symmetric] kc_def [symmetric] by simp
qed

text \<open>
  The specification states C2 with every other field arbitrary when a follow-up is present.
  The confidence is converted first: with a follow-up and a confidence that is an
  object, \<^verbatim>\<open>float\<close> raises, and the request ends with that \<^verbatim>\<open>TypeError\<close>, not with the
  follow-up.
\<close>

theorem followup_without_number_raises:
  "snd (twilio_inbound
      (scored [(lit ''followup'', PStr (lit ''Do you mean task A?'')),
               (lit ''confidence'', PDict [(lit ''score'', PFloat (FVal (3 / 4)))])])
      sample_request) = Inl TypeError"
proof -
  define kvs where "kvs = [(lit ''followup'', PStr (lit ''Do you mean task A?'')),
               (lit ''confidence'', PDict [(lit ''score'', PFloat (FVal (3 / 4)))])]"
  define d where "d = kvs @ [(lit ''task_id'', PNone), (lit ''status'', PNone),
      (lit ''progress'', PNone), (lit ''blocker'', PNone), (lit ''needs_attention'', PNone)]"
  have h1: "tasks_loaded (scored kvs) sample_request sample_member [sample_task]"
    unfolding scored_def by (rule sample_loaded)
  have h2: "snd (ai_parse_update (scored kvs) (message_body sample_request) [sample_task]) = Inr (PDict d)"
    unfolding message_body_sample snd_ai_parse_update_scored
    by (simp add: sanity_defaults_def Let_def setdefault_def kvs_def d_def)
  have "confidence_of (scored kvs) (PDict d) = Inl TypeError"
    by (simp add: confidence_of_def d_def kvs_def bindE_def py_or_def)
  then have hp: "handle_parsed (scored kvs) sample_member (message_body sample_request) (PDict d) =
      ([], Inl TypeError)"
    by (rule handle_parsed_confidence_error)
  show ?thesis
    unfolding kvs_def [symmetric] twilio_inbound_loaded [OF h1]
    by (simp add: snd_bind_io h2 hp)
qed

text \<open>
  C3, as the code has it. \<^verbatim>\<open>twilio_inbound\<close> has no handler around the interpreter.
  When the scoring call raises, or its output is not JSON, the request ends with that
  exception and not with a reply; nothing has been written by then.
\<close>

theorem scoring_failure_propagates:
  assumes "tasks_loaded E req member tasks"
    and "task_summaries 0 tasks = Inr task_list"
    and "responses_create E (message_body req) (PList task_list) = None \<or>
         (\<exists>out. responses_create E (message_body req) (PList task_list) = Some out \<and>
                json_loads E out = None)"
  shows "snd (twilio_inbound E req) =
           Inl (if responses_create E (message_body req) (PList task_list) = None
                then OpenAIError else JSONDecodeError) \<and>
         writes (fst (twilio_inbound E req)) = []"
proof -
  have "snd (ai_parse_update E (message_body req) tasks) =
          Inl (if responses_create E (message_body req) (PList task_list) = None
               then OpenAIError else JSONDecodeError)"
    using assms(2,3)
    by (auto simp: ai_parse_update_def snd_bind_io pure_io_def openai_responses_create_def)
  then show ?thesis
    unfolding twilio_inbound_loaded [OF assms(1)]
    by (simp add: fst_bind_io snd_bind_io writes_ai_parse_update)
qed

text \<open>The theorem at the sample request, with a scoring step that answers in prose.\<close>

theorem scoring_failure_propagates_witness:
  "snd (twilio_inbound (sample_env (Some (lit ''Sure, that is task A.'')) None) sample_request) =
     Inl JSONDecodeError \<and>
   writes (fst (twilio_inbound (sample_env (Some (lit ''Sure, that is task A.'')) None) sample_request)) = []"
proof -
  define E where "E = sample_env (Some (lit ''Sure, that is task A.'')) None"
  have h1: "tasks_loaded E sample_request sample_member [sample_task]"
    unfolding E_def by (rule sample_loaded)
  have r: "responses_create E m t = Some (lit ''Sure, that is task A.'')" for m t
    by (simp add: E_def sample_env_def)
  have j: "json_loads E out = None" for out
    by (simp add: E_def sample_env_def)
  from scoring_failure_propagates [OF h1 task_summaries_sample] r j
  show ?thesis
    unfolding E_def [symmetric] by simp
qed

text \<open>
  The specification states C3 for every path. With a scoring call that raises,
  the sample request ends with the client's exception.
\<close>

theorem scoring_down_no_reply:
  "snd (twilio_inbound (sample_env None None) sample_request) = Inl OpenAIError"
proof -
  have h1: "tasks_loaded (sample_env None None) sample_request sample_member [sample_task]"
    by (rule sample_loaded)
  have "snd (ai_parse_update (sample_env None None) (message_body sample_request) [sample_task]) =
          Inl OpenAIError"
    unfolding ai_parse_update_def task_summaries_sample
    by (simp add: snd_bind_io pure_io_def openai_responses_create_def sample_env_def)
  then show ?thesis
    unfolding twilio_inbound_loaded [OF h1] by (simp add: snd_bind_io)
qed

end
